theory Spec2Isabelle
  imports Main
begin

section \<open>Errors, tensors and the library calls of the notebook\<close>

text \<open>
  The notebook \<^verbatim>\<open>use_model_example.ipynb\<close> is a straight sequence of cells. Every
  Python exception that a cell can raise is a value of \<open>error\<close>; a cell returns
  \<open>error + result\<close> and the first \<open>Inl\<close> aborts the run.
\<close>

datatype error =
    ZeroDivisionError
  | IndexError
  | KeyError
  | AttributeError
  | RuntimeError
  | ValueError
  | ParameterError
  | IOError
  | StructError

text \<open>
  A tensor (torch tensor or numpy array) is its shape together with its entries, grouped
  in rows along the last axis: the notebook only slices, measures and concatenates along
  the last (time) axis, and indexes or stacks along the first one. A tensor of shape
  \<open>[d\<^sub>1, \<dots>, d\<^sub>k, T]\<close> has \<open>d\<^sub>1 * \<dots> * d\<^sub>k\<close> rows of length \<open>T\<close>, in row-major order; a
  tensor of rank 0 has the single row \<open>[x]\<close>.
\<close>

record 'a tensor =
  shape :: "nat list"
  rows :: "'a list list"

definition row_len :: "nat list \<Rightarrow> nat" where
  "row_len s = (if s = [] then 1 else last s)"

definition n_rows :: "nat list \<Rightarrow> nat" where
  "n_rows s = prod_list (butlast s)"

definition wf_tensor :: "'a tensor \<Rightarrow> bool" where
  "wf_tensor t \<longleftrightarrow>
     length (rows t) = n_rows (shape t) \<and> list_all (\<lambda>r. length r = row_len (shape t)) (rows t)"

text \<open>\<^verbatim>\<open>t.shape[-1]\<close> and \<^verbatim>\<open>tup[-1]\<close>: the last entry, IndexError on an empty tuple.\<close>

definition tuple_last :: "nat list \<Rightarrow> error + nat" where
  "tuple_last s = (if s = [] then Inl IndexError else Inr (last s))"

definition shape_last :: "'a tensor \<Rightarrow> error + nat" where
  "shape_last t = tuple_last (shape t)"

text \<open>\<^verbatim>\<open>t.shape[0]\<close>.\<close>

definition shape_first :: "'a tensor \<Rightarrow> error + nat" where
  "shape_first t = (case shape t of [] \<Rightarrow> Inl IndexError | d # _ \<Rightarrow> Inr d)"

text \<open>
  \<^verbatim>\<open>t[..., a:b]\<close> with \<open>0 \<le> a\<close>, \<open>0 \<le> b\<close>: a Python slice clips both bounds to the length of
  the axis and never raises; indexing a rank-0 tensor with a slice raises IndexError.
\<close>

definition slice_last :: "'a tensor \<Rightarrow> nat \<Rightarrow> nat \<Rightarrow> error + 'a tensor" where
  "slice_last t a b =
     (if shape t = [] then Inl IndexError
      else Inr \<lparr>shape = butlast (shape t) @ [min b (last (shape t)) - min a (last (shape t))],
                rows = map (\<lambda>r. take (b - a) (drop a r)) (rows t)\<rparr>)"

text \<open>
  \<^verbatim>\<open>torch.stack(ts, 0)\<close>: RuntimeError on an empty list and on tensors of different
  shapes; otherwise a new first axis of size \<open>len(ts)\<close>.
\<close>

definition torch_stack :: "'a tensor list \<Rightarrow> error + 'a tensor" where
  "torch_stack ts =
     (case ts of
        [] \<Rightarrow> Inl RuntimeError
      | t # _ \<Rightarrow>
          if list_all (\<lambda>u. shape u = shape t) ts
          then Inr \<lparr>shape = length ts # shape t,
                    rows = (if shape t = [] then [concat (concat (map rows ts))]
                            else concat (map rows ts))\<rparr>
          else Inl RuntimeError)"

text \<open>\<^verbatim>\<open>torch.tensor(x).unsqueeze(0)\<close>: a new first axis of size 1.\<close>

definition unsqueeze0 :: "'a tensor \<Rightarrow> 'a tensor" where
  "unsqueeze0 t =
     \<lparr>shape = 1 # shape t, rows = (if shape t = [] then [concat (rows t)] else rows t)\<rparr>"

text \<open>A list comprehension whose body may raise: the first exception ends it.\<close>

fun comprehension :: "('i \<Rightarrow> error + 'b) \<Rightarrow> 'i list \<Rightarrow> error + 'b list" where
  "comprehension f [] = Inr []"
| "comprehension f (i # is) =
     (case f i of
        Inl e \<Rightarrow> Inl e
      | Inr y \<Rightarrow> (case comprehension f is of Inl e \<Rightarrow> Inl e | Inr ys \<Rightarrow> Inr (y # ys)))"

section \<open>Cell 10: the chunker\<close>

text \<open>
  \<^verbatim>\<open>[features[..., i*features_shape[-1]:(i+1)*features_shape[-1]]
     for i in range(features.shape[-1]//features_shape[-1])]\<close>
  The range is evaluated first: \<^verbatim>\<open>features.shape[-1]\<close>, then \<^verbatim>\<open>features_shape[-1]\<close>,
  then the floor division, which raises ZeroDivisionError on 0.
\<close>

definition chunk_list :: "'a tensor \<Rightarrow> nat list \<Rightarrow> error + 'a tensor list" where
  "chunk_list features features_shape =
     (case shape_last features of
        Inl e \<Rightarrow> Inl e
      | Inr T \<Rightarrow>
          (case tuple_last features_shape of
             Inl e \<Rightarrow> Inl e
           | Inr C \<Rightarrow>
               if C = 0 then Inl ZeroDivisionError
               else comprehension (\<lambda>i. slice_last features (i * C) ((i + 1) * C))
                      [0..<T div C]))"

text \<open>\<^verbatim>\<open>batch = torch.stack([...], 0)\<close>\<close>

definition make_batch :: "'a tensor \<Rightarrow> nat list \<Rightarrow> error + 'a tensor" where
  "make_batch features features_shape =
     (case chunk_list features features_shape of
        Inl e \<Rightarrow> Inl e
      | Inr chunks \<Rightarrow> torch_stack chunks)"

section \<open>Remaining tensor operations\<close>

text \<open>
  \<^verbatim>\<open>t[i]\<close> with \<open>0 \<le> i\<close>: IndexError on a rank-0 tensor and on an index beyond the first
  axis; otherwise the \<open>i\<close>-th block along the first axis.
\<close>

definition index0 :: "'a tensor \<Rightarrow> nat \<Rightarrow> error + 'a tensor" where
  "index0 t i =
     (case shape t of
        [] \<Rightarrow> Inl IndexError
      | d # s \<Rightarrow>
          if d \<le> i then Inl IndexError
          else Inr \<lparr>shape = s,
                    rows = (if s = [] then [take 1 (drop i (concat (rows t)))]
                            else take (n_rows s) (drop (i * n_rows s) (rows t)))\<rparr>)"

text \<open>
  \<^verbatim>\<open>t.squeeze()\<close> without an axis: every axis of size 1 is removed, the entries keep
  their row-major order and are regrouped along the new last axis.
\<close>

definition regroup :: "nat \<Rightarrow> nat \<Rightarrow> 'a list \<Rightarrow> 'a list list" where
  "regroup n d xs = map (\<lambda>r. take d (drop (r * d) xs)) [0..<n]"

definition squeeze :: "'a tensor \<Rightarrow> 'a tensor" where
  "squeeze t =
     (let s = filter (\<lambda>d. d \<noteq> 1) (shape t)
      in \<lparr>shape = s, rows = regroup (n_rows s) (row_len s) (concat (rows t))\<rparr>)"

text \<open>
  \<^verbatim>\<open>np.concatenate(ts, axis=-1)\<close>: ValueError on an empty list, on a rank-0 array and
  on arrays that differ in rank or in an axis other than the last; otherwise the rows
  are joined one after the other.
\<close>

definition np_concatenate_last :: "'a tensor list \<Rightarrow> error + 'a tensor" where
  "np_concatenate_last ts =
     (case ts of
        [] \<Rightarrow> Inl ValueError
      | t # _ \<Rightarrow>
          if list_ex (\<lambda>u. shape u = []) ts then Inl ValueError
          else if list_all (\<lambda>u. butlast (shape u) = butlast (shape t)) ts
          then Inr \<lparr>shape = butlast (shape t) @ [sum_list (map (\<lambda>u. last (shape u)) ts)],
                    rows = map (\<lambda>r. concat (map (\<lambda>u. rows u ! r) ts)) [0..<n_rows (shape t)]\<rparr>
          else Inl ValueError)"

section \<open>The separator object and its configuration\<close>

text \<open>
  \<^verbatim>\<open>separator.data_set.config\<close> is a dictionary read from the checkpoint. A value is a
  string (\<^verbatim>\<open>scaling_type\<close>), an integer (\<^verbatim>\<open>sampling_rate\<close>) or some other object
  (\<^verbatim>\<open>shift\<close>, \<^verbatim>\<open>scaling\<close>). \<^verbatim>\<open>config[k]\<close> raises KeyError on a missing key.
\<close>

datatype 'p config_value = CStr string | CInt int | CVal 'p

type_synonym 'p config_dict = "string \<Rightarrow> 'p config_value option"

definition config_get :: "'p config_dict \<Rightarrow> string \<Rightarrow> error + 'p config_value" where
  "config_get c k = (case c k of None \<Rightarrow> Inl KeyError | Some v \<Rightarrow> Inr v)"

text \<open>
  \<^verbatim>\<open>s.lower()\<close> on the letters A to Z; a string is a list of bytes and every other byte
  is kept. A value that is not a string has no \<^verbatim>\<open>lower\<close>: AttributeError.
\<close>

definition lower_char :: "char \<Rightarrow> char" where
  "lower_char c =
     (case map_of (zip ''ABCDEFGHIJKLMNOPQRSTUVWXYZ'' ''abcdefghijklmnopqrstuvwxyz'') c of
        None \<Rightarrow> c
      | Some l \<Rightarrow> l)"

definition lower :: "string \<Rightarrow> string" where
  "lower s = map lower_char s"

definition value_lower :: "'p config_value \<Rightarrow> error + string" where
  "value_lower v = (case v of CStr s \<Rightarrow> Inr (lower s) | CInt _ \<Rightarrow> Inl AttributeError
                     | CVal _ \<Rightarrow> Inl AttributeError)"

text \<open>
  The class \<^verbatim>\<open>AudioSeparator\<close> (module \<^verbatim>\<open>separator\<close>), its data set and its model are
  not part of the notebook: the object returned by \<^verbatim>\<open>AudioSeparator.from_checkpoint\<close> is
  a record of the methods and attributes that the cells use. Each method may raise.
  \<open>'a\<close> is the type of a tensor entry, \<open>'w\<close> of a waveform, \<open>'l\<close> of the model's labels.
\<close>

record ('a, 'p, 'w, 'l) separator =
  config :: "'p config_dict"
  load_audio :: "string \<Rightarrow> error + 'w"
  separated_stft :: "'w \<Rightarrow> error + 'a tensor \<times> 'a tensor"
  stft_magnitude_to_features :: "'a tensor \<Rightarrow> error + 'a tensor"
  shift_and_scale_features ::
    "'a tensor \<Rightarrow> 'p config_value \<Rightarrow> 'p config_value \<Rightarrow> error + 'a tensor"
  features_shape :: "nat list"
  model :: "'a tensor \<Rightarrow> error + 'l \<times> 'a tensor"
  separate_spectrogram_in_lin_scale ::
    "'a tensor \<Rightarrow> nat list \<Rightarrow> 'a tensor \<Rightarrow> error + 'a tensor"
  spectrogram_to_audio :: "'a tensor \<Rightarrow> 'a tensor \<Rightarrow> error + 'w"

section \<open>Cell 8: features\<close>

text \<open>
  \<^verbatim>\<open>features = separator.data_set.stft_magnitude_to_features(magnitude=magnitude)
  features = torch.tensor(features).unsqueeze(0)
  if separator.data_set.config['scaling_type'].lower() != "none":
      features = separator.data_set.shift_and_scale_features(features,
                     separator.data_set.config['shift'], separator.data_set.config['scaling'])\<close>
\<close>

definition unnormalized_features ::
  "('a, 'p, 'w, 'l) separator \<Rightarrow> 'a tensor \<Rightarrow> error + 'a tensor" where
  "unnormalized_features sp magnitude =
     (case stft_magnitude_to_features sp magnitude of
        Inl e \<Rightarrow> Inl e
      | Inr f \<Rightarrow> Inr (unsqueeze0 f))"

definition scale_features ::
  "('a, 'p, 'w, 'l) separator \<Rightarrow> 'a tensor \<Rightarrow> error + 'a tensor" where
  "scale_features sp features =
     (case config_get (config sp) ''scaling_type'' of
        Inl e \<Rightarrow> Inl e
      | Inr v \<Rightarrow>
          (case value_lower v of
             Inl e \<Rightarrow> Inl e
           | Inr s \<Rightarrow>
               if s \<noteq> ''none'' then
                 (case config_get (config sp) ''shift'' of
                    Inl e \<Rightarrow> Inl e
                  | Inr shift \<Rightarrow>
                      (case config_get (config sp) ''scaling'' of
                         Inl e \<Rightarrow> Inl e
                       | Inr scaling \<Rightarrow> shift_and_scale_features sp features shift scaling))
               else Inr features))"

definition compute_features ::
  "('a, 'p, 'w, 'l) separator \<Rightarrow> 'a tensor \<Rightarrow> error + 'a tensor" where
  "compute_features sp magnitude =
     (case unnormalized_features sp magnitude of
        Inl e \<Rightarrow> Inl e
      | Inr features \<Rightarrow> scale_features sp features)"

section \<open>Cells 11 to 21: masks and the separated spectrogram\<close>

text \<open>\<^verbatim>\<open>_, masks = separator.model(batch)\<close>\<close>

definition run_model :: "('a, 'p, 'w, 'l) separator \<Rightarrow> 'a tensor \<Rightarrow> error + 'a tensor" where
  "run_model sp batch = (case model sp batch of Inl e \<Rightarrow> Inl e | Inr (_, masks) \<Rightarrow> Inr masks)"

text \<open>
  \<^verbatim>\<open>spectrograms = [separator.separate_spectrogram_in_lin_scale(masks[i].detach(),
        features_shape, magnitude[..., i*features_shape[-1]:(i+1)*features_shape[-1]])
     for i in range(batch.shape[0])]\<close>
  The arguments are evaluated from left to right; \<^verbatim>\<open>detach\<close> keeps the entries.
\<close>

definition separate_chunk ::
  "('a, 'p, 'w, 'l) separator \<Rightarrow> 'a tensor \<Rightarrow> 'a tensor \<Rightarrow> nat \<Rightarrow> error + 'a tensor" where
  "separate_chunk sp masks magnitude i =
     (case index0 masks i of
        Inl e \<Rightarrow> Inl e
      | Inr mask_i \<Rightarrow>
          (case tuple_last (features_shape sp) of
             Inl e \<Rightarrow> Inl e
           | Inr C \<Rightarrow>
               (case slice_last magnitude (i * C) ((i + 1) * C) of
                  Inl e \<Rightarrow> Inl e
                | Inr magnitude_chunk \<Rightarrow>
                    separate_spectrogram_in_lin_scale sp mask_i (features_shape sp)
                      magnitude_chunk)))"

definition separate_all ::
  "('a, 'p, 'w, 'l) separator \<Rightarrow> 'a tensor \<Rightarrow> 'a tensor \<Rightarrow> 'a tensor
     \<Rightarrow> error + 'a tensor list" where
  "separate_all sp batch masks magnitude =
     (case shape_first batch of
        Inl e \<Rightarrow> Inl e
      | Inr n \<Rightarrow> comprehension (separate_chunk sp masks magnitude) [0..<n])"

text \<open>\<^verbatim>\<open>class_spectrograms = [spec[class_idx].squeeze() for spec in spectrograms]\<close>\<close>

definition select_class :: "'a tensor list \<Rightarrow> nat \<Rightarrow> error + 'a tensor list" where
  "select_class spectrograms class_idx =
     comprehension
       (\<lambda>spec. case index0 spec class_idx of Inl e \<Rightarrow> Inl e | Inr s \<Rightarrow> Inr (squeeze s))
       spectrograms"

text \<open>Cells 10 to 17: from the features and the magnitude to the list of spectrograms.\<close>

definition separate_spectrograms ::
  "('a, 'p, 'w, 'l) separator \<Rightarrow> 'a tensor \<Rightarrow> 'a tensor \<Rightarrow> error + 'a tensor list" where
  "separate_spectrograms sp features magnitude =
     (case make_batch features (features_shape sp) of
        Inl e \<Rightarrow> Inl e
      | Inr batch \<Rightarrow>
          (case run_model sp batch of
             Inl e \<Rightarrow> Inl e
           | Inr masks \<Rightarrow> separate_all sp batch masks magnitude))"

text \<open>\<^verbatim>\<open>source_spectrogram = np.concatenate(class_spectrograms, axis=-1)\<close>\<close>

definition source_spectrogram ::
  "('a, 'p, 'w, 'l) separator \<Rightarrow> 'a tensor \<Rightarrow> 'a tensor \<Rightarrow> nat \<Rightarrow> error + 'a tensor" where
  "source_spectrogram sp features magnitude class_idx =
     (case separate_spectrograms sp features magnitude of
        Inl e \<Rightarrow> Inl e
      | Inr spectrograms \<Rightarrow>
          (case select_class spectrograms class_idx of
             Inl e \<Rightarrow> Inl e
           | Inr class_spectrograms \<Rightarrow> np_concatenate_last class_spectrograms))"

section \<open>Cells 23 and 25: resynthesis and the output file\<close>

text \<open>
  \<^verbatim>\<open>separated_audio = separator.spectrogram_to_audio(source_spectrogram,
        phase[..., :source_spectrogram.shape[-1]])\<close>
\<close>

definition truncated_phase :: "'a tensor \<Rightarrow> 'a tensor \<Rightarrow> error + 'a tensor" where
  "truncated_phase spectrogram phase =
     (case shape_last spectrogram of
        Inl e \<Rightarrow> Inl e
      | Inr L \<Rightarrow> slice_last phase 0 L)"

definition resynthesize ::
  "('a, 'p, 'w, 'l) separator \<Rightarrow> 'a tensor \<Rightarrow> 'a tensor \<Rightarrow> error + 'w" where
  "resynthesize sp spectrogram phase =
     (case truncated_phase spectrogram phase of
        Inl e \<Rightarrow> Inl e
      | Inr ph \<Rightarrow> spectrogram_to_audio sp spectrogram ph)"

text \<open>
  \<^verbatim>\<open>librosa.output.write_wav(path, y, sr)\<close>, with \<^verbatim>\<open>norm=False\<close>, in the order of its steps:
  \<^item> \<^verbatim>\<open>util.valid_audio(y, mono=False)\<close> raises ParameterError unless \<open>y\<close> is a floating-point
    array whose entries are all finite;
  \<^item> \<^verbatim>\<open>scipy.io.wavfile.write(path, sr, y)\<close> opens the file for writing, which raises
    IOError when the destination cannot be written;
  \<^item> the header is packed with \<^verbatim>\<open>struct.pack\<close>, which raises \<^verbatim>\<open>struct.error\<close> unless \<open>sr\<close> is an
    integer and both the rate and the bytes per second (the rate times the bytes of one
    frame) fit in 32 unsigned bits;
  \<^item> data beyond the size limit of a wave file raises ValueError;
  \<^item> otherwise the samples are stored as they are, with the rate in the header (an array
    of two channels is transposed into frames, which keeps every sample; nothing is
    resampled or normalized).
  What these checks read from a waveform and from the destination is given by the host:
  the type \<open>'w\<close> of a waveform is a parameter. The file system is a map from paths to audio
  files.
\<close>

record 'w host =
  valid_audio :: "'w \<Rightarrow> bool"
  writable :: "string \<Rightarrow> bool"
  frame_bytes :: "'w \<Rightarrow> nat"
  too_large :: "'w \<Rightarrow> bool"

record 'w wav_file =
  samples :: 'w
  sample_rate :: int

type_synonym 'w file_system = "string \<Rightarrow> 'w wav_file option"

definition write_wav ::
  "'w host \<Rightarrow> 'w file_system \<Rightarrow> string \<Rightarrow> 'w \<Rightarrow> 'p config_value
     \<Rightarrow> error + 'w file_system" where
  "write_wav host fs path y sr =
     (if \<not> valid_audio host y then Inl ParameterError
      else if \<not> writable host path then Inl IOError
      else (case sr of
              CInt n \<Rightarrow>
                if 0 \<le> n \<and> n < 2 ^ 32 \<and> n * int (frame_bytes host y) < 2 ^ 32
                then (if too_large host y then Inl ValueError
                      else Inr (fs(path \<mapsto> \<lparr>samples = y, sample_rate = n\<rparr>)))
                else Inl StructError
            | CStr _ \<Rightarrow> Inl StructError
            | CVal _ \<Rightarrow> Inl StructError))"

text \<open>
  \<^verbatim>\<open>librosa.output.write_wav("path_to_output.wav", separated_audio,
        sr=separator.data_set.config['sampling_rate'])\<close>
  The arguments are evaluated first: a missing key raises KeyError before the call.
\<close>

definition save_audio ::
  "'w host \<Rightarrow> ('a, 'p, 'w, 'l) separator \<Rightarrow> 'w file_system \<Rightarrow> string \<Rightarrow> 'w
     \<Rightarrow> error + 'w file_system" where
  "save_audio host sp fs path separated_audio =
     (case config_get (config sp) ''sampling_rate'' of
        Inl e \<Rightarrow> Inl e
      | Inr sr \<Rightarrow> write_wav host fs path separated_audio sr)"

section \<open>The notebook, cell after cell\<close>

definition run_notebook ::
  "'w host \<Rightarrow> ('a, 'p, 'w, 'l) separator \<Rightarrow> string \<Rightarrow> string \<Rightarrow> nat \<Rightarrow> 'w file_system
     \<Rightarrow> error + 'w file_system" where
  "run_notebook host sp wav_path out_path class_idx fs =
     (case load_audio sp wav_path of
        Inl e \<Rightarrow> Inl e
      | Inr audio \<Rightarrow>
          (case separated_stft sp audio of
             Inl e \<Rightarrow> Inl e
           | Inr (magnitude, phase) \<Rightarrow>
               (case compute_features sp magnitude of
                  Inl e \<Rightarrow> Inl e
                | Inr features \<Rightarrow>
                    (case source_spectrogram sp features magnitude class_idx of
                       Inl e \<Rightarrow> Inl e
                     | Inr spectrogram \<Rightarrow>
                         (case resynthesize sp spectrogram phase of
                            Inl e \<Rightarrow> Inl e
                          | Inr separated_audio \<Rightarrow>
                              save_audio host sp fs out_path separated_audio)))))"

section \<open>A separator to run the notebook on\<close>

text \<open>
  Modelled from the spec: \<^verbatim>\<open>AudioSeparator.separate_spectrogram_in_lin_scale\<close>, defined in
  the module \<^verbatim>\<open>separator\<close> and not in the notebook. It "multiplies the mask with the
  corresponding slice of the original, non-normalized magnitude": the mask has one more
  axis than the magnitude chunk, the classes, and each class is multiplied entry by entry
  with the chunk. The result has the shape of the mask; other shapes raise ValueError.
\<close>

definition mask_times_magnitude ::
  "'a::times tensor \<Rightarrow> nat list \<Rightarrow> 'a tensor \<Rightarrow> error + 'a tensor" where
  "mask_times_magnitude masks fshape magnitude_chunk =
     (if shape masks = [] \<or> tl (shape masks) \<noteq> shape magnitude_chunk
      then Inl ValueError
      else Inr \<lparr>shape = shape masks,
                rows = map (\<lambda>(k, r). map2 (*) r
                              (rows magnitude_chunk ! (k mod length (rows magnitude_chunk))))
                         (enumerate 0 (rows masks))\<rparr>)"

text \<open>
  The other methods are the simplest ones of their type: a waveform is kept as its
  magnitude and phase, the features are the magnitude itself, the scaling subtracts an
  integer shift and multiplies by an integer factor, and the model has one class, whose
  mask is the chunk it is given.
\<close>

definition example_scaling ::
  "int tensor \<Rightarrow> int config_value \<Rightarrow> int config_value \<Rightarrow> error + int tensor" where
  "example_scaling t shift scaling =
     (case (shift, scaling) of
        (CInt a, CInt b) \<Rightarrow> Inr (t\<lparr>rows := map (map (\<lambda>x. (x - a) * b)) (rows t)\<rparr>)
      | _ \<Rightarrow> Inl ValueError)"

definition example_separator ::
  "int config_dict \<Rightarrow> nat list \<Rightarrow> int tensor \<times> int tensor
     \<Rightarrow> (int, int, int tensor \<times> int tensor, unit) separator" where
  "example_separator cfg fshape audio =
     \<lparr>config = cfg,
      load_audio = (\<lambda>path. Inr audio),
      separated_stft = Inr,
      stft_magnitude_to_features = Inr,
      shift_and_scale_features = example_scaling,
      features_shape = fshape,
      model = (\<lambda>batch. Inr ((), batch)),
      separate_spectrogram_in_lin_scale = mask_times_magnitude,
      spectrogram_to_audio = (\<lambda>spectrogram phase. Inr (spectrogram, phase))\<rparr>"

definition example_config :: "string \<Rightarrow> int config_dict" where
  "example_config scaling_type =
     [''scaling_type'' \<mapsto> CStr scaling_type, ''shift'' \<mapsto> CInt 1, ''scaling'' \<mapsto> CInt 2,
      ''sampling_rate'' \<mapsto> CInt 16000]"

definition example_magnitude :: "int tensor" where
  "example_magnitude = \<lparr>shape = [2, 5], rows = [[1, 2, 3, 4, 5], [6, 7, 8, 9, 10]]\<rparr>"

definition example_phase :: "int tensor" where
  "example_phase = \<lparr>shape = [2, 5], rows = [[0, 1, 0, 1, 0], [1, 0, 1, 0, 1]]\<rparr>"

text \<open>
  A host for the examples: paths other than the empty one can be written, a frame has
  four bytes and no waveform is too large; which waveforms are valid float buffers is
  left open.
\<close>

definition example_host :: "('w \<Rightarrow> bool) \<Rightarrow> 'w host" where
  "example_host valid =
     \<lparr>valid_audio = valid, writable = (\<lambda>path. path \<noteq> []), frame_bytes = (\<lambda>y. 4),
      too_large = (\<lambda>y. False)\<rparr>"

text \<open>
  A separator whose waveforms are float buffers: a sample is a finite value or one of
  \<^verbatim>\<open>nan\<close> and \<^verbatim>\<open>inf\<close>, and a buffer is valid when every sample is finite. Its inverse transform
  lists the entries of the spectrogram; the other methods are those of the first example.
\<close>

datatype sample = Finite int | NotFinite

definition all_finite :: "sample list \<Rightarrow> bool" where
  "all_finite y = list_all (\<lambda>x. x \<noteq> NotFinite) y"

definition example_buffer_separator ::
  "int config_dict \<Rightarrow> nat list \<Rightarrow> (int, int, sample list, unit) separator" where
  "example_buffer_separator cfg fshape =
     \<lparr>config = cfg,
      load_audio = (\<lambda>path. Inr [Finite 1, Finite 2, Finite 3]),
      separated_stft = (\<lambda>audio. Inr (example_magnitude, example_phase)),
      stft_magnitude_to_features = Inr,
      shift_and_scale_features = example_scaling,
      features_shape = fshape,
      model = (\<lambda>batch. Inr ((), batch)),
      separate_spectrogram_in_lin_scale = mask_times_magnitude,
      spectrogram_to_audio = (\<lambda>spectrogram phase. Inr (map Finite (concat (rows spectrogram))))\<rparr>"

section \<open>Unfolding cell 8\<close>

lemmas cell_defs = compute_features_def unnormalized_features_def scale_features_def
  config_get_def value_lower_def lower_def lower_char_def

section \<open>The chunker\<close>

lemma comprehension_map:
  "(\<And>i. i \<in> set is \<Longrightarrow> f i = Inr (g i)) \<Longrightarrow> comprehension f is = Inr (map g is)"
  by (induction "is") simp_all

lemma comprehension_Inr:
  "comprehension f is = Inr ys \<Longrightarrow>
     length ys = length is \<and> (\<forall>k<length is. f (is ! k) = Inr (ys ! k))"
proof (induction "is" arbitrary: ys)
  case Nil
  then show ?case by simp
next
  case (Cons i "is")
  from Cons.prems obtain y zs where y: "f i = Inr y" and zs: "comprehension f is = Inr zs"
    and ys: "ys = y # zs"
    by (auto split: sum.splits)
  from Cons.IH [OF zs] have len: "length zs = length is"
    and nth: "\<forall>k<length is. f (is ! k) = Inr (zs ! k)" by simp_all
  show ?case
  proof (intro conjI allI impI)
    show "length ys = length (i # is)" using len ys by simp
  next
    fix k assume "k < length (i # is)"
    then show "f ((i # is) ! k) = Inr (ys ! k)"
      using y nth ys by (cases k) simp_all
  qed
qed

lemma full_chunk: "0 < C \<Longrightarrow> i < T div C \<Longrightarrow> (i + 1) * C \<le> (T::nat)"
proof -
  assume C: "0 < C" and i: "i < T div C"
  then have "i + 1 \<le> T div C" by simp
  then have "(i + 1) * C \<le> (T div C) * C" by (rule mult_le_mono1)
  also have "\<dots> \<le> T" by simp
  finally show ?thesis .
qed

lemma slice_full:
  assumes "shape t \<noteq> []" "0 < C" "i < last (shape t) div C"
  shows "slice_last t (i * C) ((i + 1) * C) =
           Inr \<lparr>shape = butlast (shape t) @ [C],
                rows = map (\<lambda>r. take C (drop (i * C) r)) (rows t)\<rparr>"
proof -
  have le: "(i + 1) * C \<le> last (shape t)" using assms(2,3) by (rule full_chunk)
  then have "i * C \<le> last (shape t)" by simp
  with le have "min ((i + 1) * C) (last (shape t)) - min (i * C) (last (shape t)) = C"
    by (simp add: min_def)
  then show ?thesis using assms(1) by (simp add: slice_last_def)
qed

lemma chunk_list_eq:
  assumes "shape features \<noteq> []" "fshape \<noteq> []" "0 < last fshape"
  shows "chunk_list features fshape =
           Inr (map (\<lambda>i. \<lparr>shape = butlast (shape features) @ [last fshape],
                rows = map (\<lambda>r. take (last fshape) (drop (i * last fshape) r)) (rows features)\<rparr>)
                  [0..<last (shape features) div last fshape])"
proof -
  let ?C = "last fshape"
  have "comprehension (\<lambda>i. slice_last features (i * ?C) ((i + 1) * ?C))
          [0..<last (shape features) div ?C] =
        Inr (map (\<lambda>i. \<lparr>shape = butlast (shape features) @ [?C],
                rows = map (\<lambda>r. take ?C (drop (i * ?C) r)) (rows features)\<rparr>)
                  [0..<last (shape features) div ?C])"
  proof (rule comprehension_map)
    fix i assume "i \<in> set [0..<last (shape features) div ?C]"
    then have "i < last (shape features) div ?C" by simp
    with assms(1,3) show "slice_last features (i * ?C) ((i + 1) * ?C) =
        Inr \<lparr>shape = butlast (shape features) @ [?C],
                rows = map (\<lambda>r. take ?C (drop (i * ?C) r)) (rows features)\<rparr>"
      by (rule slice_full)
  qed
  then show ?thesis
    using assms by (simp add: chunk_list_def shape_last_def tuple_last_def)
qed

lemma torch_stack_same:
  assumes "ts \<noteq> []" "\<And>u. u \<in> set ts \<Longrightarrow> shape u = s" "s \<noteq> []"
  shows "torch_stack ts = Inr \<lparr>shape = length ts # s, rows = concat (map rows ts)\<rparr>"
proof -
  from assms(1) obtain t us where ts: "ts = t # us" by (cases ts) auto
  have "list_all (\<lambda>u. shape u = shape t) ts" using assms(2) ts by (simp add: list_all_iff)
  moreover have "shape t = s" using assms(2) ts by simp
  ultimately show ?thesis using ts assms(3) by (simp add: torch_stack_def)
qed

lemma make_batch_eq:
  assumes "shape features \<noteq> []" "fshape \<noteq> []" "0 < last fshape"
    "last fshape \<le> last (shape features)"
  shows "make_batch features fshape =
           Inr \<lparr>shape = (last (shape features) div last fshape)
                          # butlast (shape features) @ [last fshape],
                rows = concat (map (\<lambda>i. map (\<lambda>r. take (last fshape) (drop (i * last fshape) r)) (rows features))
                  [0..<last (shape features) div last fshape])\<rparr>"
proof -
  let ?C = "last fshape" and ?T = "last (shape features)"
  let ?cs = "map (\<lambda>i. \<lparr>shape = butlast (shape features) @ [?C],
                rows = map (\<lambda>r. take ?C (drop (i * ?C) r)) (rows features)\<rparr>) [0..<?T div ?C]"
  have n: "0 < ?T div ?C" using assms(3,4) by (simp add: div_greater_zero_iff)
  then have ne: "?cs \<noteq> []" by simp
  have "torch_stack ?cs = Inr \<lparr>shape = length ?cs # (butlast (shape features) @ [?C]), rows = concat (map rows ?cs)\<rparr>"
    using ne by (rule torch_stack_same) auto
  then show ?thesis
    using chunk_list_eq [OF assms(1-3)] by (simp add: make_batch_def comp_def)
qed


lemma tuple_last_Inr: "tuple_last s = Inr n \<longleftrightarrow> s \<noteq> [] \<and> last s = n"
  by (simp add: tuple_last_def)

lemma wf_chunk:
  assumes wf: "wf_tensor t" and ne: "shape t \<noteq> []" and le: "(i + 1) * C \<le> last (shape t)"
  shows "wf_tensor \<lparr>shape = butlast (shape t) @ [C],
                     rows = map (\<lambda>r. take C (drop (i * C) r)) (rows t)\<rparr>"
proof -
  have len: "\<And>r. r \<in> set (rows t) \<Longrightarrow> length r = last (shape t)"
    using wf ne by (simp add: wf_tensor_def row_len_def list_all_iff)
  have "\<And>r. r \<in> set (rows t) \<Longrightarrow> length (take C (drop (i * C) r)) = C"
    using len le by simp
  then show ?thesis
    using wf by (simp add: wf_tensor_def row_len_def n_rows_def list_all_iff)
qed

lemma chunk_entry:
  assumes "j < C" "(i + 1) * C \<le> length r"
  shows "take C (drop (i * C) r) ! j = r ! (i * C + j)"
  using assms by simp

text \<open>
  Claim C1, for inputs with at least one full chunk. Let the features be a well-formed
  tensor of time length \<open>T\<close> and the chunk time extent be \<open>C\<close>, with \<open>1 \<le> C \<le> T\<close>. The
  comprehension of cell 10 yields exactly \<open>T div C\<close> chunks; chunk \<open>i\<close> has time length \<open>C\<close>
  and its entry \<open>j\<close> of every row is the entry \<open>i * C + j\<close> of the same row of the features,
  an index below \<open>C * (T div C)\<close>: the chunks are consecutive, do not overlap, leave out the
  last \<open>T mod C\<close> frames and contain no padding. \<^verbatim>\<open>torch.stack\<close> makes of them a batch whose
  first axis has size \<open>T div C\<close>.
\<close>

theorem chunker_full_chunks:
  assumes wf: "wf_tensor features"
    and T: "shape_last features = Inr T"
    and C: "tuple_last fshape = Inr C"
    and pos: "0 < C" and le: "C \<le> T"
  shows "\<exists>chunks batch.
      chunk_list features fshape = Inr chunks \<and> length chunks = T div C \<and>
      (\<forall>i<T div C.
         shape (chunks ! i) = butlast (shape features) @ [C] \<and> wf_tensor (chunks ! i) \<and>
         (\<forall>k<length (rows features). \<forall>j<C.
            i * C + j < C * (T div C) \<and>
            rows (chunks ! i) ! k ! j = rows features ! k ! (i * C + j))) \<and>
      make_batch features fshape = Inr batch \<and>
      shape batch = (T div C) # butlast (shape features) @ [C] \<and>
      rows batch = concat (map rows chunks) \<and> wf_tensor batch"
proof -
  let ?piece = "\<lambda>i. \<lparr>shape = butlast (shape features) @ [C],
                     rows = map (\<lambda>r. take C (drop (i * C) r)) (rows features)\<rparr>"
  let ?chunks = "map ?piece [0..<T div C]"
  let ?batch = "\<lparr>shape = (T div C) # butlast (shape features) @ [C],
                 rows = concat (map (\<lambda>i. map (\<lambda>r. take C (drop (i * C) r)) (rows features))
                                  [0..<T div C])\<rparr>"
  from T have ne: "shape features \<noteq> []" and Tl: "last (shape features) = T"
    by (simp_all add: shape_last_def tuple_last_Inr)
  from C have ne': "fshape \<noteq> []" and Cl: "last fshape = C"
    by (simp_all add: tuple_last_Inr)
  have chunks: "chunk_list features fshape = Inr ?chunks"
    using chunk_list_eq [OF ne ne'] pos Cl Tl by simp
  have batch: "make_batch features fshape = Inr ?batch"
    using make_batch_eq [OF ne ne'] pos le Cl Tl by simp
  have rowlen: "\<And>r. r \<in> set (rows features) \<Longrightarrow> length r = T"
    using wf ne Tl by (simp add: wf_tensor_def row_len_def list_all_iff)
  have each: "shape (?chunks ! i) = butlast (shape features) @ [C] \<and> wf_tensor (?chunks ! i) \<and>
         (\<forall>k<length (rows features). \<forall>j<C.
            i * C + j < C * (T div C) \<and>
            rows (?chunks ! i) ! k ! j = rows features ! k ! (i * C + j))"
    if i: "i < T div C" for i
  proof -
    have full: "(i + 1) * C \<le> T" using pos i by (rule full_chunk)
    have eq: "?chunks ! i = ?piece i" using i by simp
    have wfc: "wf_tensor (?piece i)" using wf ne full Tl by (simp add: wf_chunk)
    have ent: "i * C + j < C * (T div C) \<and>
            rows (?piece i) ! k ! j = rows features ! k ! (i * C + j)"
      if k: "k < length (rows features)" and j: "j < C" for k j
    proof -
      have "length (rows features ! k) = T" using k rowlen by simp
      with full j have "take C (drop (i * C) (rows features ! k)) ! j
                          = rows features ! k ! (i * C + j)"
        by (simp add: chunk_entry)
      moreover have "i * C + j < C * (T div C)"
      proof -
        have "i * C + j < (i + 1) * C" using j by simp
        also have "\<dots> \<le> (T div C) * C" using i by (intro mult_le_mono1) simp
        finally show ?thesis by (simp add: mult.commute)
      qed
      ultimately show ?thesis using k by simp
    qed
    show ?thesis unfolding eq using wfc ent by simp
  qed
  have wfb: "wf_tensor ?batch"
  proof -
    have "length (rows ?batch) = (T div C) * length (rows features)"
      by (simp add: length_concat comp_def sum_list_triv)
    moreover have "n_rows (shape ?batch) = (T div C) * n_rows (shape features)"
      using ne by (simp add: n_rows_def)
    moreover have "length (rows features) = n_rows (shape features)"
      using wf by (simp add: wf_tensor_def)
    ultimately have 1: "length (rows ?batch) = n_rows (shape ?batch)" by simp
    have rl: "row_len (shape ?batch) = C" by (simp add: row_len_def)
    have 2: "list_all (\<lambda>r. length r = row_len (shape ?batch)) (rows ?batch)"
      unfolding list_all_iff rl
    proof
      fix r assume "r \<in> set (rows ?batch)"
      then obtain i r' where i: "i < T div C" and r': "r' \<in> set (rows features)"
        and r: "r = take C (drop (i * C) r')" by auto
      have "(i + 1) * C \<le> T" using pos i by (rule full_chunk)
      then show "length r = C" using rowlen [OF r'] r by simp
    qed
    from 1 2 show ?thesis unfolding wf_tensor_def by (rule conjI)
  qed
  show ?thesis
  proof (intro exI conjI)
    show "chunk_list features fshape = Inr ?chunks" by (rule chunks)
    show "length ?chunks = T div C" by simp
    show "\<forall>i<T div C.
         shape (?chunks ! i) = butlast (shape features) @ [C] \<and> wf_tensor (?chunks ! i) \<and>
         (\<forall>k<length (rows features). \<forall>j<C.
            i * C + j < C * (T div C) \<and>
            rows (?chunks ! i) ! k ! j = rows features ! k ! (i * C + j))"
      using each by blast
    show "make_batch features fshape = Inr ?batch" by (rule batch)
    show "shape ?batch = (T div C) # butlast (shape features) @ [C]" by simp
    show "rows ?batch = concat (map rows ?chunks)" by (simp add: comp_def)
    show "wf_tensor ?batch" by (rule wfb)
  qed
qed

text \<open>Five frames in chunks of two: two chunks, the fifth frame is dropped.\<close>

theorem chunker_full_chunks_witness:
  "wf_tensor \<lparr>shape = [1, 2, 5], rows = [[1, 2, 3, 4, 5], [6, 7, 8, 9, 10 :: int]]\<rparr> \<and>
   shape_last \<lparr>shape = [1, 2, 5], rows = [[1, 2, 3, 4, 5], [6, 7, 8, 9, 10 :: int]]\<rparr> = Inr 5 \<and>
   tuple_last [1, 2, 2] = Inr 2 \<and> (0::nat) < 2 \<and> (2::nat) \<le> 5 \<and>
   make_batch \<lparr>shape = [1, 2, 5], rows = [[1, 2, 3, 4, 5], [6, 7, 8, 9, 10 :: int]]\<rparr> [1, 2, 2]
     = Inr \<lparr>shape = [2, 1, 2, 2], rows = [[1, 2], [6, 7], [3, 4], [8, 9]]\<rparr>"
proof -
  let ?f = "\<lparr>shape = [1, 2, 5], rows = [[1, 2, 3, 4, 5], [6, 7, 8, 9, 10 :: int]]\<rparr>"
  have h1: "wf_tensor ?f" by (simp add: wf_tensor_def n_rows_def row_len_def)
  have h2: "shape_last ?f = Inr 5" by (simp add: shape_last_def tuple_last_def)
  have h3: "tuple_last [1, 2, 2] = Inr 2" by (simp add: tuple_last_def)
  have h4: "(0::nat) < 2" and h5: "(2::nat) \<le> 5" by simp_all
  from chunker_full_chunks [OF h1 h2 h3 h4 h5]
  obtain chunks batch where c: "chunk_list ?f [1, 2, 2] = Inr chunks"
    and b: "make_batch ?f [1, 2, 2] = Inr batch"
    and s: "shape batch = (5 div 2) # butlast (shape ?f) @ [2]"
    and r: "rows batch = concat (map rows chunks)"
    by blast
  have "chunk_list ?f [1, 2, 2] = Inr [\<lparr>shape = [1, 2, 2], rows = [[1, 2], [6, 7]]\<rparr>,
                                       \<lparr>shape = [1, 2, 2], rows = [[3, 4], [8, 9]]\<rparr>]"
    by (simp add: chunk_list_def shape_last_def tuple_last_def slice_last_def upt_rec)
  with c have "chunks = [\<lparr>shape = [1, 2, 2], rows = [[1, 2], [6, 7]]\<rparr>,
                         \<lparr>shape = [1, 2, 2], rows = [[3, 4], [8, 9]]\<rparr>]" by simp
  with s r have "batch = \<lparr>shape = [2, 1, 2, 2], rows = [[1, 2], [6, 7], [3, 4], [8, 9]]\<rparr>"
    by simp
  with b h1 h2 h3 show ?thesis by simp
qed

text \<open>
  With fewer frames than one chunk the comprehension is empty and \<^verbatim>\<open>torch.stack\<close>
  raises: no batch of zero chunks is produced.
\<close>

theorem chunker_short_input_counterexample:
  "make_batch \<lparr>shape = [1, 2, 1], rows = [[1], [6 :: int]]\<rparr> [1, 2, 2] = Inl RuntimeError"
  by (simp add: make_batch_def chunk_list_def shape_last_def tuple_last_def torch_stack_def)

text \<open>
  Claim C9. When the time length \<open>T\<close> of the features is below the chunk time extent \<open>C\<close>,
  the comprehension of cell 10 is empty, \<^verbatim>\<open>torch.stack\<close> raises on it, and the run of the
  notebook ends there with that error: no output is written.
\<close>

theorem short_input_fails:
  assumes "load_audio sp wav_path = Inr audio"
    and "separated_stft sp audio = Inr (magnitude, phase)"
    and "compute_features sp magnitude = Inr features"
    and T: "shape_last features = Inr T"
    and C: "tuple_last (features_shape sp) = Inr C"
    and lt: "T < C"
  shows "chunk_list features (features_shape sp) = Inr [] \<and>
         make_batch features (features_shape sp) = Inl RuntimeError \<and>
         run_notebook host sp wav_path out_path class_idx fs = Inl RuntimeError"
proof -
  from lt have "C \<noteq> 0" and "T div C = 0" by simp_all
  then have c: "chunk_list features (features_shape sp) = Inr []"
    using T C by (simp add: chunk_list_def)
  then have b: "make_batch features (features_shape sp) = Inl RuntimeError"
    by (simp add: make_batch_def torch_stack_def)
  then have "source_spectrogram sp features magnitude class_idx = Inl RuntimeError"
    by (simp add: source_spectrogram_def separate_spectrograms_def)
  then have "run_notebook host sp wav_path out_path class_idx fs = Inl RuntimeError"
    using assms(1-3) by (simp add: run_notebook_def)
  with c b show ?thesis by simp
qed

text \<open>Five frames and a chunk time extent of seven.\<close>

theorem short_input_fails_witness:
  "load_audio (example_separator (example_config ''none'') [1, 2, 7]
       (example_magnitude, example_phase)) ''in.wav'' = Inr (example_magnitude, example_phase) \<and>
   separated_stft (example_separator (example_config ''none'') [1, 2, 7]
       (example_magnitude, example_phase)) (example_magnitude, example_phase)
     = Inr (example_magnitude, example_phase) \<and>
   compute_features (example_separator (example_config ''none'') [1, 2, 7]
       (example_magnitude, example_phase)) example_magnitude = Inr (unsqueeze0 example_magnitude) \<and>
   shape_last (unsqueeze0 example_magnitude) = Inr 5 \<and>
   tuple_last (features_shape (example_separator (example_config ''none'') [1, 2, 7]
       (example_magnitude, example_phase))) = Inr 7 \<and>
   (5::nat) < 7 \<and>
   run_notebook (example_host (\<lambda>y. False)) (example_separator (example_config ''none'') [1, 2, 7]
       (example_magnitude, example_phase)) ''in.wav'' ''out.wav'' 0 Map.empty = Inl RuntimeError"
proof -
  let ?sp = "example_separator (example_config ''none'') [1, 2, 7]
               (example_magnitude, example_phase)"
  have h1: "load_audio ?sp ''in.wav'' = Inr (example_magnitude, example_phase)"
    by (simp add: example_separator_def)
  have h2: "separated_stft ?sp (example_magnitude, example_phase)
              = Inr (example_magnitude, example_phase)"
    by (simp add: example_separator_def)
  have h3: "compute_features ?sp example_magnitude = Inr (unsqueeze0 example_magnitude)"
    by (simp add: cell_defs example_separator_def example_config_def)
  have h4: "shape_last (unsqueeze0 example_magnitude) = Inr 5"
    by (simp add: shape_last_def tuple_last_def unsqueeze0_def example_magnitude_def)
  have h5: "tuple_last (features_shape ?sp) = Inr 7"
    by (simp add: tuple_last_def example_separator_def)
  have h6: "(5::nat) < 7" by simp
  from short_input_fails [OF h1 h2 h3 h4 h5 h6, of "example_host (\<lambda>y. False)" "''out.wav''" 0
      Map.empty]
  have "run_notebook (example_host (\<lambda>y. False)) ?sp ''in.wav'' ''out.wav'' 0 Map.empty
          = Inl RuntimeError" by simp
  with h1 h2 h3 h4 h5 show ?thesis by simp
qed


lemma shape_last_Inr: "shape_last t = Inr n \<longleftrightarrow> shape t \<noteq> [] \<and> last (shape t) = n"
  by (simp add: shape_last_def tuple_last_Inr)

lemma make_batch_Inr:
  assumes b: "make_batch features fshape = Inr batch"
    and T: "shape_last features = Inr T" and C: "tuple_last fshape = Inr C"
  shows "0 < C \<and> C \<le> T \<and> shape batch = (T div C) # butlast (shape features) @ [C]"
proof -
  from T have ne: "shape features \<noteq> []" and Tl: "last (shape features) = T"
    by (simp_all add: shape_last_Inr)
  from C have ne': "fshape \<noteq> []" and Cl: "last fshape = C"
    by (simp_all add: tuple_last_Inr)
  have pos: "0 < C"
  proof (rule ccontr)
    assume "\<not> 0 < C"
    then have "chunk_list features fshape = Inl ZeroDivisionError"
      using T C by (simp add: chunk_list_def)
    with b show False by (simp add: make_batch_def)
  qed
  have le: "C \<le> T"
  proof (rule ccontr)
    assume "\<not> C \<le> T"
    then have "T div C = 0" by simp
    then have "chunk_list features fshape = Inr []"
      using T C pos by (simp add: chunk_list_def)
    with b show False by (simp add: make_batch_def torch_stack_def)
  qed
  from make_batch_eq [OF ne ne'] pos le Cl Tl b
  have "shape batch = (T div C) # butlast (shape features) @ [C]" by auto
  with pos le show ?thesis by simp
qed

lemma separate_all_Inr:
  assumes "separate_all sp batch masks magnitude = Inr spectrograms"
    and "shape_first batch = Inr n"
  shows "length spectrograms = n \<and>
         (\<forall>i<n. separate_chunk sp masks magnitude i = Inr (spectrograms ! i))"
  using assms comprehension_Inr [of "separate_chunk sp masks magnitude" "[0..<n]" spectrograms]
  by (simp add: separate_all_def)

lemma separate_spectrograms_chunk:
  assumes run: "separate_spectrograms sp features magnitude = Inr spectrograms"
    and T: "shape_last features = Inr T"
    and C: "tuple_last (features_shape sp) = Inr C"
    and i: "i < T div C"
  shows "\<exists>batch masks mask_i chunk.
      make_batch features (features_shape sp) = Inr batch \<and>
      run_model sp batch = Inr masks \<and>
      index0 masks i = Inr mask_i \<and>
      slice_last magnitude (i * C) ((i + 1) * C) = Inr chunk \<and>
      rows chunk = map (\<lambda>r. take C (drop (i * C) r)) (rows magnitude) \<and>
      length spectrograms = T div C \<and>
      separate_spectrogram_in_lin_scale sp mask_i (features_shape sp) chunk
        = Inr (spectrograms ! i)"
proof -
  from run obtain batch masks where b: "make_batch features (features_shape sp) = Inr batch"
    and m: "run_model sp batch = Inr masks"
    and a: "separate_all sp batch masks magnitude = Inr spectrograms"
    by (auto simp: separate_spectrograms_def split: sum.splits)
  from make_batch_Inr [OF b T C] have "shape_first batch = Inr (T div C)"
    by (simp add: shape_first_def)
  from separate_all_Inr [OF a this] i
  have len: "length spectrograms = T div C"
    and ch: "separate_chunk sp masks magnitude i = Inr (spectrograms ! i)" by simp_all
  from ch C obtain mask_i chunk where x: "index0 masks i = Inr mask_i"
    and s: "slice_last magnitude (i * C) ((i + 1) * C) = Inr chunk"
    and p: "separate_spectrogram_in_lin_scale sp mask_i (features_shape sp) chunk
              = Inr (spectrograms ! i)"
    by (auto simp: separate_chunk_def split: sum.splits)
  from s have "rows chunk = map (\<lambda>r. take C (drop (i * C) r)) (rows magnitude)"
    by (auto simp: slice_last_def split: if_splits)
  with b m x s p len show ?thesis by blast
qed

section \<open>Normalization of the features\<close>

lemma lower_none: "lower ''none'' = ''none''"
  by (simp add: lower_def lower_char_def)

lemma lower_examples: "lower ''None'' = ''none''" "lower ''NONE'' = ''none''"
  "lower ''standard'' = ''standard''"
  by (simp_all add: lower_def lower_char_def)

lemma scale_features_CStr:
  assumes "config sp ''scaling_type'' = Some (CStr s)"
  shows "scale_features sp features =
           (if lower s = ''none'' then Inr features
            else (case config_get (config sp) ''shift'' of
                    Inl e \<Rightarrow> Inl e
                  | Inr a \<Rightarrow>
                      (case config_get (config sp) ''scaling'' of
                         Inl e \<Rightarrow> Inl e
                       | Inr b \<Rightarrow> shift_and_scale_features sp features a b)))"
  using assms by (simp add: scale_features_def config_get_def value_lower_def)

text \<open>
  Claim C5. When \<^verbatim>\<open>config['scaling_type']\<close> is \<^verbatim>\<open>"none"\<close>, the scaling step of cell 8 returns
  the features it is given, and the features handed to the chunker are the output of
  \<^verbatim>\<open>stft_magnitude_to_features\<close> with its channel axis, without any shift or scale.
\<close>

theorem no_scaling_is_identity:
  assumes "config sp ''scaling_type'' = Some (CStr ''none'')"
  shows "scale_features sp features = Inr features \<and>
         compute_features sp magnitude = unnormalized_features sp magnitude"
proof -
  have s: "scale_features sp f = Inr f" for f
    using scale_features_CStr [OF assms] lower_none by simp
  then have "compute_features sp magnitude = unnormalized_features sp magnitude"
    by (simp add: compute_features_def split: sum.splits)
  with s show ?thesis by simp
qed

text \<open>The example separator with the scaling type \<^verbatim>\<open>"none"\<close>.\<close>

theorem no_scaling_is_identity_witness:
  "config (example_separator (example_config ''none'') [1, 2, 2]
      (example_magnitude, example_phase)) ''scaling_type'' = Some (CStr ''none'') \<and>
   unnormalized_features (example_separator (example_config ''none'') [1, 2, 2]
      (example_magnitude, example_phase)) example_magnitude
     = Inr \<lparr>shape = [1, 2, 5], rows = [[1, 2, 3, 4, 5], [6, 7, 8, 9, 10]]\<rparr> \<and>
   compute_features (example_separator (example_config ''none'') [1, 2, 2]
      (example_magnitude, example_phase)) example_magnitude
     = Inr \<lparr>shape = [1, 2, 5], rows = [[1, 2, 3, 4, 5], [6, 7, 8, 9, 10]]\<rparr>"
proof -
  let ?sp = "example_separator (example_config ''none'') [1, 2, 2]
               (example_magnitude, example_phase)"
  have h: "config ?sp ''scaling_type'' = Some (CStr ''none'')"
    by (simp add: example_separator_def example_config_def)
  have u: "unnormalized_features ?sp example_magnitude
             = Inr \<lparr>shape = [1, 2, 5], rows = [[1, 2, 3, 4, 5], [6, 7, 8, 9, 10]]\<rparr>"
    by (simp add: unnormalized_features_def unsqueeze0_def example_separator_def
        example_magnitude_def)
  from no_scaling_is_identity [OF h, of _ example_magnitude] u h show ?thesis by simp
qed

text \<open>
  Claim C6, with the guard as cell 8 has it. When \<^verbatim>\<open>config['scaling_type']\<close> does not
  lowercase to \<^verbatim>\<open>"none"\<close>, the features are
  the result of \<^verbatim>\<open>shift_and_scale_features\<close> on the values stored under \<^verbatim>\<open>config['shift']\<close> and
  \<^verbatim>\<open>config['scaling']\<close>, whatever the magnitude of the input is: nothing is computed from
  the input in their place.
\<close>

theorem scaling_uses_stored_values:
  assumes "config sp ''scaling_type'' = Some (CStr s)" and "lower s \<noteq> ''none''"
    and "config sp ''shift'' = Some shift" and "config sp ''scaling'' = Some scaling"
  shows "scale_features sp features = shift_and_scale_features sp features shift scaling \<and>
         compute_features sp magnitude =
           (case unnormalized_features sp magnitude of
              Inl e \<Rightarrow> Inl e
            | Inr f \<Rightarrow> shift_and_scale_features sp f shift scaling)"
proof -
  have s: "scale_features sp f = shift_and_scale_features sp f shift scaling" for f
    using scale_features_CStr [OF assms(1)] assms(2-4) by (simp add: config_get_def)
  then show ?thesis by (simp add: compute_features_def split: sum.splits)
qed

text \<open>The example separator with the scaling type \<^verbatim>\<open>"standard"\<close>, shift 1 and scaling 2.\<close>

theorem scaling_uses_stored_values_witness:
  "config (example_separator (example_config ''standard'') [1, 2, 2]
      (example_magnitude, example_phase)) ''scaling_type'' = Some (CStr ''standard'') \<and>
   lower ''standard'' \<noteq> ''none'' \<and>
   config (example_separator (example_config ''standard'') [1, 2, 2]
      (example_magnitude, example_phase)) ''shift'' = Some (CInt 1) \<and>
   config (example_separator (example_config ''standard'') [1, 2, 2]
      (example_magnitude, example_phase)) ''scaling'' = Some (CInt 2) \<and>
   compute_features (example_separator (example_config ''standard'') [1, 2, 2]
      (example_magnitude, example_phase)) example_magnitude
     = Inr \<lparr>shape = [1, 2, 5], rows = [[0, 2, 4, 6, 8], [10, 12, 14, 16, 18]]\<rparr>"
proof -
  let ?sp = "example_separator (example_config ''standard'') [1, 2, 2]
               (example_magnitude, example_phase)"
  have h1: "config ?sp ''scaling_type'' = Some (CStr ''standard'')"
    by (simp add: example_separator_def example_config_def)
  have h2: "lower ''standard'' \<noteq> ''none''" by (simp add: lower_examples)
  have h3: "config ?sp ''shift'' = Some (CInt 1)"
    by (simp add: example_separator_def example_config_def)
  have h4: "config ?sp ''scaling'' = Some (CInt 2)"
    by (simp add: example_separator_def example_config_def)
  have u: "unnormalized_features ?sp example_magnitude
             = Inr \<lparr>shape = [1, 2, 5], rows = [[1, 2, 3, 4, 5], [6, 7, 8, 9, 10]]\<rparr>"
    by (simp add: unnormalized_features_def unsqueeze0_def example_separator_def
        example_magnitude_def)
  have e: "shift_and_scale_features ?sp
             \<lparr>shape = [1, 2, 5], rows = [[1, 2, 3, 4, 5], [6, 7, 8, 9, 10]]\<rparr> (CInt 1) (CInt 2)
             = Inr \<lparr>shape = [1, 2, 5], rows = [[0, 2, 4, 6, 8], [10, 12, 14, 16, 18]]\<rparr>"
    by (simp add: example_separator_def example_scaling_def)
  from scaling_uses_stored_values [OF h1 h2 h3 h4, of _ example_magnitude] u e
  have "compute_features ?sp example_magnitude
          = Inr \<lparr>shape = [1, 2, 5], rows = [[0, 2, 4, 6, 8], [10, 12, 14, 16, 18]]\<rparr>"
    by simp
  with h1 h2 h3 h4 show ?thesis by simp
qed

text \<open>
  The scaling type \<^verbatim>\<open>"NONE"\<close> is not the string \<^verbatim>\<open>"none"\<close>, and a shift and a scaling are
  stored, yet cell 8 leaves the features as they are.
\<close>

theorem uppercase_none_is_not_scaled_counterexample:
  "config (example_separator (example_config ''NONE'') [1, 2, 2]
      (example_magnitude, example_phase)) ''scaling_type'' = Some (CStr ''NONE'') \<and>
   ''NONE'' \<noteq> ''none'' \<and>
   config (example_separator (example_config ''NONE'') [1, 2, 2]
      (example_magnitude, example_phase)) ''shift'' = Some (CInt 1) \<and>
   config (example_separator (example_config ''NONE'') [1, 2, 2]
      (example_magnitude, example_phase)) ''scaling'' = Some (CInt 2) \<and>
   shift_and_scale_features (example_separator (example_config ''NONE'') [1, 2, 2]
      (example_magnitude, example_phase))
      \<lparr>shape = [1, 2, 5], rows = [[1, 2, 3, 4, 5], [6, 7, 8, 9, 10]]\<rparr> (CInt 1) (CInt 2)
     = Inr \<lparr>shape = [1, 2, 5], rows = [[0, 2, 4, 6, 8], [10, 12, 14, 16, 18]]\<rparr> \<and>
   compute_features (example_separator (example_config ''NONE'') [1, 2, 2]
      (example_magnitude, example_phase)) example_magnitude
     = Inr \<lparr>shape = [1, 2, 5], rows = [[1, 2, 3, 4, 5], [6, 7, 8, 9, 10]]\<rparr>"
  by (simp add: cell_defs unsqueeze0_def example_separator_def example_config_def
      example_magnitude_def example_scaling_def)

text \<open>
  Claim C10. The guard of cell 8 compares the lowercased \<^verbatim>\<open>scaling_type\<close> with \<^verbatim>\<open>"none"\<close>:
  the scaling is skipped for every string that lowercases to \<^verbatim>\<open>"none"\<close>, as \<^verbatim>\<open>"None"\<close> and
  \<^verbatim>\<open>"NONE"\<close> do, and for every other string \<^verbatim>\<open>shift_and_scale_features\<close> is called on the
  stored shift and scaling (a missing key raises KeyError).
\<close>

theorem scaling_guard_ignores_case:
  assumes "config sp ''scaling_type'' = Some (CStr s)"
  shows "scale_features sp features =
           (if lower s = ''none'' then Inr features
            else (case config_get (config sp) ''shift'' of
                    Inl e \<Rightarrow> Inl e
                  | Inr shift \<Rightarrow>
                      (case config_get (config sp) ''scaling'' of
                         Inl e \<Rightarrow> Inl e
                       | Inr scaling \<Rightarrow>
                           shift_and_scale_features sp features shift scaling))) \<and>
         lower ''None'' = ''none'' \<and> lower ''NONE'' = ''none''"
  using scale_features_CStr [OF assms] lower_examples by simp

text \<open>The scaling types \<^verbatim>\<open>"NONE"\<close>, which is skipped, and \<^verbatim>\<open>"nones"\<close>, which is not.\<close>

theorem scaling_guard_ignores_case_witness:
  "config (example_separator (example_config ''NONE'') [1, 2, 2]
      (example_magnitude, example_phase)) ''scaling_type'' = Some (CStr ''NONE'') \<and>
   scale_features (example_separator (example_config ''NONE'') [1, 2, 2]
      (example_magnitude, example_phase)) example_magnitude = Inr example_magnitude \<and>
   config (example_separator (example_config ''nones'') [1, 2, 2]
      (example_magnitude, example_phase)) ''scaling_type'' = Some (CStr ''nones'') \<and>
   scale_features (example_separator (example_config ''nones'') [1, 2, 2]
      (example_magnitude, example_phase)) example_magnitude
     = Inr \<lparr>shape = [2, 5], rows = [[0, 2, 4, 6, 8], [10, 12, 14, 16, 18]]\<rparr>"
proof -
  let ?sp = "example_separator (example_config ''NONE'') [1, 2, 2]
               (example_magnitude, example_phase)"
  let ?sq = "example_separator (example_config ''nones'') [1, 2, 2]
               (example_magnitude, example_phase)"
  have h: "config ?sp ''scaling_type'' = Some (CStr ''NONE'')"
    by (simp add: example_separator_def example_config_def)
  have k: "config ?sq ''scaling_type'' = Some (CStr ''nones'')"
    by (simp add: example_separator_def example_config_def)
  have l: "lower ''nones'' \<noteq> ''none''" by (simp add: lower_def lower_char_def)
  have a: "scale_features ?sp example_magnitude = Inr example_magnitude"
    using scaling_guard_ignores_case [OF h, of example_magnitude] by simp
  have "scale_features ?sq example_magnitude =
          example_scaling example_magnitude (CInt 1) (CInt 2)"
    using scaling_guard_ignores_case [OF k, of example_magnitude] l
    by (simp add: config_get_def example_separator_def example_config_def)
  then have b: "scale_features ?sq example_magnitude
             = Inr \<lparr>shape = [2, 5], rows = [[0, 2, 4, 6, 8], [10, 12, 14, 16, 18]]\<rparr>"
    by (simp add: example_scaling_def example_magnitude_def)
  from h k a b show ?thesis by simp
qed

section \<open>Masks and magnitude\<close>

text \<open>
  Claim C2. In a run of cells 10 to 17 on the features and the magnitude, chunk \<open>i\<close> of
  the result is \<^verbatim>\<open>separate_spectrogram_in_lin_scale\<close> applied to the \<open>i\<close>-th mask of the model
  and to the slice of the magnitude, as the transform returned it, at the time offsets
  from \<open>i * C\<close> to \<open>(i + 1) * C\<close>. The features enter only through the batch given to the
  model.
\<close>

theorem masks_applied_to_raw_magnitude:
  assumes "separate_spectrograms sp features magnitude = Inr spectrograms"
    and "shape_last features = Inr T"
    and "tuple_last (features_shape sp) = Inr C"
    and "i < T div C"
  shows "\<exists>batch masks mask_i chunk.
      make_batch features (features_shape sp) = Inr batch \<and>
      run_model sp batch = Inr masks \<and>
      index0 masks i = Inr mask_i \<and>
      slice_last magnitude (i * C) ((i + 1) * C) = Inr chunk \<and>
      rows chunk = map (\<lambda>r. take C (drop (i * C) r)) (rows magnitude) \<and>
      length spectrograms = T div C \<and>
      separate_spectrogram_in_lin_scale sp mask_i (features_shape sp) chunk
        = Inr (spectrograms ! i)"
  using assms by (rule separate_spectrograms_chunk)

text \<open>
  Features that differ from the magnitude: the second spectrogram is the product of the
  second mask with the frames 2 and 3 of the magnitude.
\<close>

theorem masks_applied_to_raw_magnitude_witness:
  "separate_spectrograms (example_separator (example_config ''standard'') [1, 2, 2]
       (example_magnitude, example_phase))
       \<lparr>shape = [1, 2, 5], rows = [[0, 2, 4, 6, 8], [10, 12, 14, 16, 18]]\<rparr> example_magnitude
     = Inr [\<lparr>shape = [1, 2, 2], rows = [[0, 4], [60, 84]]\<rparr>,
            \<lparr>shape = [1, 2, 2], rows = [[12, 24], [112, 144]]\<rparr>] \<and>
   shape_last \<lparr>shape = [1, 2, 5], rows = [[0, 2, 4, 6, 8], [10, 12, 14, 16, 18 :: int]]\<rparr> = Inr 5 \<and>
   tuple_last (features_shape (example_separator (example_config ''standard'') [1, 2, 2]
       (example_magnitude, example_phase))) = Inr 2 \<and>
   (1::nat) < 5 div 2 \<and>
   slice_last example_magnitude (1 * 2) ((1 + 1) * 2)
     = Inr \<lparr>shape = [2, 2], rows = [[3, 4], [8, 9]]\<rparr> \<and>
   separate_spectrogram_in_lin_scale (example_separator (example_config ''standard'') [1, 2, 2]
       (example_magnitude, example_phase))
       \<lparr>shape = [1, 2, 2], rows = [[4, 6], [14, 16]]\<rparr> [1, 2, 2]
       \<lparr>shape = [2, 2], rows = [[3, 4], [8, 9]]\<rparr>
     = Inr \<lparr>shape = [1, 2, 2], rows = [[12, 24], [112, 144]]\<rparr>"
proof -
  let ?sp = "example_separator (example_config ''standard'') [1, 2, 2]
               (example_magnitude, example_phase)"
  let ?f = "\<lparr>shape = [1, 2, 5], rows = [[0, 2, 4, 6, 8], [10, 12, 14, 16, 18 :: int]]\<rparr>"
  let ?B = "\<lparr>shape = [2, 1, 2, 2], rows = [[0, 2], [10, 12], [4, 6], [14, 16 :: int]]\<rparr>"
  have h1: "separate_spectrograms ?sp ?f example_magnitude
              = Inr [\<lparr>shape = [1, 2, 2], rows = [[0, 4], [60, 84]]\<rparr>,
                     \<lparr>shape = [1, 2, 2], rows = [[12, 24], [112, 144]]\<rparr>]"
    by code_simp
  have h2: "shape_last ?f = Inr 5" by (simp add: shape_last_def tuple_last_def)
  have h3: "tuple_last (features_shape ?sp) = Inr 2"
    by (simp add: tuple_last_def example_separator_def)
  have h4: "(1::nat) < 5 div 2" by simp
  from masks_applied_to_raw_magnitude [OF h1 h2 h3 h4]
  obtain batch masks mask_i chunk where
    b: "make_batch ?f (features_shape ?sp) = Inr batch"
    and m: "run_model ?sp batch = Inr masks"
    and x: "index0 masks 1 = Inr mask_i"
    and s: "slice_last example_magnitude (1 * 2) ((1 + 1) * 2) = Inr chunk"
    and p: "separate_spectrogram_in_lin_scale ?sp mask_i (features_shape ?sp) chunk
              = Inr ([\<lparr>shape = [1, 2, 2], rows = [[0, 4], [60, 84]]\<rparr>,
                      \<lparr>shape = [1, 2, 2], rows = [[12, 24], [112, 144 :: int]]\<rparr>] ! 1)"
    by blast
  have "make_batch ?f (features_shape ?sp) = Inr ?B" by code_simp
  with b have "batch = ?B" by simp
  with m have "masks = ?B" by (simp add: run_model_def example_separator_def)
  moreover have "index0 ?B 1 = Inr \<lparr>shape = [1, 2, 2], rows = [[4, 6], [14, 16]]\<rparr>"
    by code_simp
  ultimately have mi: "mask_i = \<lparr>shape = [1, 2, 2], rows = [[4, 6], [14, 16]]\<rparr>"
    using x by simp
  have sl: "slice_last example_magnitude (1 * 2) ((1 + 1) * 2)
          = Inr \<lparr>shape = [2, 2], rows = [[3, 4], [8, 9]]\<rparr>"
    by code_simp
  with s have ch: "chunk = \<lparr>shape = [2, 2], rows = [[3, 4], [8, 9]]\<rparr>" by simp
  have fs: "features_shape ?sp = [1, 2, 2]" by (simp add: example_separator_def)
  from p mi ch fs have "separate_spectrogram_in_lin_scale ?sp
       \<lparr>shape = [1, 2, 2], rows = [[4, 6], [14, 16]]\<rparr> [1, 2, 2]
       \<lparr>shape = [2, 2], rows = [[3, 4], [8, 9]]\<rparr>
     = Inr \<lparr>shape = [1, 2, 2], rows = [[12, 24], [112, 144]]\<rparr>"
    by simp
  with h1 h2 h3 sl show ?thesis by simp
qed

section \<open>The concatenated spectrogram\<close>

lemma index0_Inr:
  "index0 t i = Inr s \<Longrightarrow> shape t \<noteq> [] \<and> shape s = tl (shape t)"
  by (auto simp: index0_def split: list.splits if_splits)

lemma shape_squeeze: "shape (squeeze t) = filter (\<lambda>d. d \<noteq> 1) (shape t)"
  by (simp add: squeeze_def Let_def)

lemma last_filter_keeps:
  assumes "xs \<noteq> []" "P (last xs)"
  shows "filter P xs \<noteq> [] \<and> last (filter P xs) = last xs"
  using assms by (cases xs rule: rev_cases) simp_all

lemma np_concatenate_last_Inr:
  assumes "np_concatenate_last ts = Inr S"
  shows "ts \<noteq> [] \<and> shape S = butlast (shape (hd ts)) @ [sum_list (map (\<lambda>u. last (shape u)) ts)]"
  using assms by (auto simp: np_concatenate_last_def split: list.splits if_splits)

lemma select_class_Inr:
  assumes "select_class spectrograms class_idx = Inr cs"
  shows "length cs = length spectrograms \<and>
         (\<forall>i<length spectrograms. \<exists>s. index0 (spectrograms ! i) class_idx = Inr s \<and>
                                        cs ! i = squeeze s)"
proof -
  let ?f = "\<lambda>spec. case index0 spec class_idx of Inl e \<Rightarrow> Inl e | Inr s \<Rightarrow> Inr (squeeze s)"
  from assms have "comprehension ?f spectrograms = Inr cs" by (simp add: select_class_def)
  from comprehension_Inr [OF this]
  have len: "length cs = length spectrograms"
    and nth: "\<forall>k<length spectrograms. ?f (spectrograms ! k) = Inr (cs ! k)" by simp_all
  have "\<exists>s. index0 (spectrograms ! i) class_idx = Inr s \<and> cs ! i = squeeze s"
    if "i < length spectrograms" for i
  proof -
    from nth that have "?f (spectrograms ! i) = Inr (cs ! i)" by simp
    then show ?thesis by (cases "index0 (spectrograms ! i) class_idx") auto
  qed
  with len show ?thesis by simp
qed

lemma source_spectrogram_time_length:
  assumes run: "source_spectrogram sp features magnitude class_idx = Inr S"
    and T: "shape_last features = Inr T"
    and M: "shape_last magnitude = Inr T"
    and C: "tuple_last (features_shape sp) = Inr C"
    and C1: "C \<noteq> 1"
    and keeps: "\<And>m fs mc out. separate_spectrogram_in_lin_scale sp m fs mc = Inr out \<Longrightarrow>
                  shape mc \<noteq> [] \<Longrightarrow>
                  2 \<le> length (shape out) \<and> last (shape out) = last (shape mc)"
  shows "shape_last S = Inr (C * (T div C)) \<and> C * (T div C) \<le> T"
proof -
  let ?n = "T div C"
  from run obtain spectrograms cs where
    sp: "separate_spectrograms sp features magnitude = Inr spectrograms"
    and sc: "select_class spectrograms class_idx = Inr cs"
    and cc: "np_concatenate_last cs = Inr S"
    by (auto simp: source_spectrogram_def split: sum.splits)
  from sp obtain batch where b: "make_batch features (features_shape sp) = Inr batch"
    by (auto simp: separate_spectrograms_def split: sum.splits)
  from make_batch_Inr [OF b T C] have pos: "0 < C" by simp
  from M have mne: "shape magnitude \<noteq> []" and Ml: "last (shape magnitude) = T"
    by (simp_all add: shape_last_Inr)
  have spec: "2 \<le> length (shape (spectrograms ! i)) \<and> last (shape (spectrograms ! i)) = C"
    if i: "i < ?n" for i
  proof -
    from separate_spectrograms_chunk [OF sp T C i]
    obtain mask_i chunk where s: "slice_last magnitude (i * C) ((i + 1) * C) = Inr chunk"
      and p: "separate_spectrogram_in_lin_scale sp mask_i (features_shape sp) chunk
                = Inr (spectrograms ! i)" by blast
    from slice_full [OF mne pos, of i] i Ml s
    have "shape chunk \<noteq> []" and "last (shape chunk) = C" by auto
    with keeps [OF p] show ?thesis by simp
  qed
  have "0 < ?n" using pos make_batch_Inr [OF b T C] by (simp add: div_greater_zero_iff)
  from separate_spectrograms_chunk [OF sp T C this]
  have len: "length spectrograms = ?n" by blast
  from select_class_Inr [OF sc] len have lcs: "length cs = ?n"
    and sel: "\<forall>i<?n. \<exists>s. index0 (spectrograms ! i) class_idx = Inr s \<and> cs ! i = squeeze s"
    by simp_all
  have each: "shape (cs ! i) \<noteq> [] \<and> last (shape (cs ! i)) = C" if i: "i < ?n" for i
  proof -
    from sel i obtain s where x: "index0 (spectrograms ! i) class_idx = Inr s"
      and q: "cs ! i = squeeze s" by blast
    from index0_Inr [OF x] have "shape s = tl (shape (spectrograms ! i))" by simp
    with spec [OF i] have "shape s \<noteq> [] \<and> last (shape s) = C"
      by (cases "shape (spectrograms ! i)") (auto simp: last_tl)
    with C1 last_filter_keeps [of "shape s" "\<lambda>d. d \<noteq> 1"] q show ?thesis
      by (simp add: shape_squeeze)
  qed
  have "\<And>u. u \<in> set cs \<Longrightarrow> last (shape u) = C"
    using each lcs by (auto simp: in_set_conv_nth)
  then have "map (\<lambda>u. last (shape u)) cs = replicate (length cs) C"
    by (simp add: map_replicate_const [symmetric] cong: map_cong)
  then have "sum_list (map (\<lambda>u. last (shape u)) cs) = ?n * C"
    using lcs by (simp add: sum_list_replicate)
  with np_concatenate_last_Inr [OF cc] have "shape_last S = Inr (C * ?n)"
    by (simp add: shape_last_def tuple_last_def mult.commute)
  then show ?thesis by simp
qed

text \<open>The example separator keeps the time extent of the magnitude chunk.\<close>

lemma mask_times_magnitude_shape:
  assumes "mask_times_magnitude m fs mc = Inr out" and "shape mc \<noteq> []"
  shows "2 \<le> length (shape out) \<and> last (shape out) = last (shape mc)"
proof -
  from assms(1) have m: "shape m \<noteq> []" and t: "tl (shape m) = shape mc"
    and o: "shape out = shape m"
    by (auto simp: mask_times_magnitude_def split: if_splits)
  from assms(2) have "1 \<le> length (shape mc)" by (cases "shape mc") simp_all
  with m t assms(2) o show ?thesis by (cases "shape m") auto
qed

lemma source_spectrogram_time_length_example:
  "source_spectrogram (example_separator (example_config ''none'') [1, 2, 2]
      (example_magnitude, example_phase)) (unsqueeze0 example_magnitude) example_magnitude 0
     = Inr \<lparr>shape = [2, 4], rows = [[1, 4, 9, 16], [36, 49, 64, 81]]\<rparr> \<and>
   shape_last \<lparr>shape = [2, 4], rows = [[1, 4, 9, 16], [36, 49, 64, 81 :: int]]\<rparr>
     = Inr (2 * (5 div 2))"
proof -
  let ?sp = "example_separator (example_config ''none'') [1, 2, 2]
               (example_magnitude, example_phase)"
  let ?S = "\<lparr>shape = [2, 4], rows = [[1, 4, 9, 16], [36, 49, 64, 81 :: int]]\<rparr>"
  have run: "source_spectrogram ?sp (unsqueeze0 example_magnitude) example_magnitude 0 = Inr ?S"
    by code_simp
  have T: "shape_last (unsqueeze0 example_magnitude) = Inr 5"
    by (simp add: shape_last_def tuple_last_def unsqueeze0_def example_magnitude_def)
  have M: "shape_last example_magnitude = Inr 5"
    by (simp add: shape_last_def tuple_last_def example_magnitude_def)
  have C: "tuple_last (features_shape ?sp) = Inr 2"
    by (simp add: tuple_last_def example_separator_def)
  have keeps: "2 \<le> length (shape out) \<and> last (shape out) = last (shape mc)"
    if "separate_spectrogram_in_lin_scale ?sp m fs mc = Inr out" and "shape mc \<noteq> []"
    for m fs mc out
    using that mask_times_magnitude_shape [of m fs mc out] by (simp add: example_separator_def)
  from source_spectrogram_time_length [OF run T M C _ keeps]
  have "shape_last ?S = Inr (2 * (5 div 2))" by simp
  with run show ?thesis by simp
qed

text \<open>
  Claim C3 at a chunk time extent of 1. With \<open>T = 5\<close> and \<open>C = 1\<close> the concatenated
  spectrogram should have the time length \<open>C * (T div C) = 5\<close>. Every chunk of a class has
  the shape \<open>[2, 1]\<close>; \<^verbatim>\<open>squeeze()\<close> removes its time axis, and \<^verbatim>\<open>np.concatenate\<close> joins the
  five chunks along the frequency axis, with the length 10. For every other chunk time
  extent the length is \<open>C * (T div C)\<close>, as \<open>source_spectrogram_time_length\<close> shows for a
  collaborator that keeps the time extent of the magnitude chunk.
\<close>

theorem unit_chunk_extent_joins_frequencies:
  "shape_last (unsqueeze0 example_magnitude) = Inr 5 \<and>
   tuple_last (features_shape (example_separator (example_config ''none'') [1, 2, 1]
      (example_magnitude, example_phase))) = Inr 1 \<and>
   source_spectrogram (example_separator (example_config ''none'') [1, 2, 1]
      (example_magnitude, example_phase)) (unsqueeze0 example_magnitude) example_magnitude 0
     = Inr \<lparr>shape = [10], rows = [[1, 36, 4, 49, 9, 64, 16, 81, 25, 100]]\<rparr>"
  by code_simp

section \<open>Phase and output file\<close>

text \<open>
  When the separated spectrogram, of time length \<open>L\<close>, is not longer than the phase, cell 23
  hands over the phase of the mixture cut to \<open>L\<close> frames: every row is the first \<open>L\<close>
  entries of the same row of the original phase, and nothing else is computed.
\<close>

lemma truncated_phase_prefix:
  assumes wf: "wf_tensor phase"
    and L: "shape_last spectrogram = Inr L"
    and P: "shape_last phase = Inr P"
    and le: "L \<le> P"
  shows "\<exists>ph. truncated_phase spectrogram phase = Inr ph \<and>
              resynthesize sp spectrogram phase = spectrogram_to_audio sp spectrogram ph \<and>
              shape_last ph = shape_last spectrogram \<and>
              shape ph = butlast (shape phase) @ [L] \<and>
              rows ph = map (take L) (rows phase) \<and>
              wf_tensor ph"
proof -
  let ?ph = "\<lparr>shape = butlast (shape phase) @ [L], rows = map (take L) (rows phase)\<rparr>"
  from P have ne: "shape phase \<noteq> []" and Pl: "last (shape phase) = P"
    by (simp_all add: shape_last_Inr)
  have "slice_last phase 0 L = Inr ?ph"
    using ne Pl le by (simp add: slice_last_def min_def)
  then have t: "truncated_phase spectrogram phase = Inr ?ph"
    using L by (simp add: truncated_phase_def)
  then have r: "resynthesize sp spectrogram phase = spectrogram_to_audio sp spectrogram ?ph"
    by (simp add: resynthesize_def)
  have sl: "shape_last ?ph = shape_last spectrogram"
    using L by (simp add: shape_last_def tuple_last_def)
  have rowlen: "\<And>r. r \<in> set (rows phase) \<Longrightarrow> length r = P"
    using wf ne Pl by (simp add: wf_tensor_def row_len_def list_all_iff)
  have w: "wf_tensor ?ph"
    using wf le rowlen by (simp add: wf_tensor_def row_len_def n_rows_def list_all_iff)
  from t r sl w show ?thesis by simp
qed

text \<open>A spectrogram of four frames and the example phase of five.\<close>

lemma truncated_phase_prefix_example:
  "wf_tensor example_phase \<and>
   shape_last \<lparr>shape = [2, 4], rows = [[0, 4, 12, 24], [60, 84, 112, 144 :: int]]\<rparr> = Inr 4 \<and>
   shape_last example_phase = Inr 5 \<and> (4::nat) \<le> 5 \<and>
   truncated_phase \<lparr>shape = [2, 4], rows = [[0, 4, 12, 24], [60, 84, 112, 144 :: int]]\<rparr>
       example_phase
     = Inr \<lparr>shape = [2, 4], rows = [[0, 1, 0, 1], [1, 0, 1, 0]]\<rparr>"
proof -
  let ?s = "\<lparr>shape = [2, 4], rows = [[0, 4, 12, 24], [60, 84, 112, 144 :: int]]\<rparr>"
  have h1: "wf_tensor example_phase"
    by (simp add: wf_tensor_def n_rows_def row_len_def example_phase_def)
  have h2: "shape_last ?s = Inr 4" by (simp add: shape_last_def tuple_last_def)
  have h3: "shape_last example_phase = Inr 5"
    by (simp add: shape_last_def tuple_last_def example_phase_def)
  have h4: "(4::nat) \<le> 5" by simp
  from truncated_phase_prefix [OF h1 h2 h3 h4]
  obtain ph where t: "truncated_phase ?s example_phase = Inr ph"
    and s: "shape ph = butlast (shape example_phase) @ [4]"
    and r: "rows ph = map (take 4) (rows example_phase)"
    by blast
  from s r have "ph = \<lparr>shape = [2, 4], rows = [[0, 1, 0, 1], [1, 0, 1, 0]]\<rparr>"
    by (simp add: example_phase_def)
  with t h1 h2 h3 show ?thesis by simp
qed

text \<open>
  Claim C4 at a chunk time extent of 1. The separated spectrogram of that run has the
  shape \<open>[10]\<close>, longer than the five frames of the phase: the slice
  \<^verbatim>\<open>phase[..., :10]\<close> is the whole phase, and \<^verbatim>\<open>spectrogram_to_audio\<close> receives a phase of time
  length 5 with a spectrogram of length 10.
\<close>

theorem unit_chunk_extent_leaves_phase_untruncated:
  "source_spectrogram (example_separator (example_config ''none'') [1, 2, 1]
      (example_magnitude, example_phase)) (unsqueeze0 example_magnitude) example_magnitude 0
     = Inr \<lparr>shape = [10], rows = [[1, 36, 4, 49, 9, 64, 16, 81, 25, 100]]\<rparr> \<and>
   shape_last \<lparr>shape = [10], rows = [[1, 36, 4, 49, 9, 64, 16, 81, 25, 100 :: int]]\<rparr> = Inr 10 \<and>
   truncated_phase \<lparr>shape = [10], rows = [[1, 36, 4, 49, 9, 64, 16, 81, 25, 100 :: int]]\<rparr>
      example_phase
     = Inr \<lparr>shape = [2, 5], rows = [[0, 1, 0, 1, 0], [1, 0, 1, 0, 1]]\<rparr> \<and>
   shape_last \<lparr>shape = [2, 5], rows = [[0, 1, 0, 1, 0], [1, 0, 1, 0, 1 :: int]]\<rparr> = Inr 5 \<and>
   resynthesize (example_separator (example_config ''none'') [1, 2, 1]
      (example_magnitude, example_phase))
      \<lparr>shape = [10], rows = [[1, 36, 4, 49, 9, 64, 16, 81, 25, 100]]\<rparr> example_phase
     = Inr (\<lparr>shape = [10], rows = [[1, 36, 4, 49, 9, 64, 16, 81, 25, 100]]\<rparr>,
            \<lparr>shape = [2, 5], rows = [[0, 1, 0, 1, 0], [1, 0, 1, 0, 1]]\<rparr>)"
  by code_simp

text \<open>
  The writer raises on a sample that is not finite, on a path that cannot be written and
  on a rate that is not an integer of 32 unsigned bits.
\<close>

lemma write_wav_failures:
  "write_wav (example_host all_finite) Map.empty ''out.wav'' [Finite 1, NotFinite]
     (CInt 16000 :: int config_value) = Inl ParameterError"
  "write_wav (example_host all_finite) Map.empty [] [Finite 1]
     (CInt 16000 :: int config_value) = Inl IOError"
  "write_wav (example_host all_finite) Map.empty ''out.wav'' [Finite 1]
     (CStr ''fast'' :: int config_value) = Inl StructError"
  "write_wav (example_host all_finite) Map.empty ''out.wav'' [Finite 1]
     (CInt (- 1) :: int config_value) = Inl StructError"
  by (simp_all add: write_wav_def example_host_def all_finite_def)

text \<open>
  Claim C8. Whenever cell 25 returns, the file at the output path holds the waveform it
  was given, unchanged, with the integer stored under \<^verbatim>\<open>config['sampling_rate']\<close> as its
  rate, and every other file is as before; it returns for every valid waveform, writable
  path and rate that fits the header. After a run of the whole notebook that waveform is
  the one \<^verbatim>\<open>spectrogram_to_audio\<close> returned for the separated spectrogram and the phase of
  the input.
\<close>

theorem output_written_at_configured_rate:
  assumes "config sp ''sampling_rate'' = Some sr"
  shows "(\<forall>fs'. save_audio host sp fs path y = Inr fs' \<longrightarrow>
            (\<exists>n. sr = CInt n \<and> fs' = fs(path \<mapsto> \<lparr>samples = y, sample_rate = n\<rparr>))) \<and>
         (\<forall>n. sr = CInt n \<and> valid_audio host y \<and> writable host path \<and>
               0 \<le> n \<and> n < 2 ^ 32 \<and> n * int (frame_bytes host y) < 2 ^ 32 \<and>
               \<not> too_large host y \<longrightarrow>
            save_audio host sp fs path y
              = Inr (fs(path \<mapsto> \<lparr>samples = y, sample_rate = n\<rparr>))) \<and>
         (\<forall>fs'. run_notebook host sp wav_path out_path class_idx fs = Inr fs' \<longrightarrow>
            (\<exists>audio magnitude phase features spectrogram separated_audio n.
               load_audio sp wav_path = Inr audio \<and>
               separated_stft sp audio = Inr (magnitude, phase) \<and>
               compute_features sp magnitude = Inr features \<and>
               source_spectrogram sp features magnitude class_idx = Inr spectrogram \<and>
               resynthesize sp spectrogram phase = Inr separated_audio \<and>
               sr = CInt n \<and>
               fs' = fs(out_path \<mapsto> \<lparr>samples = separated_audio, sample_rate = n\<rparr>)))"
proof -
  have s: "save_audio host sp fs p w = write_wav host fs p w sr" for p w
    using assms by (simp add: save_audio_def config_get_def)
  have ok: "\<exists>n. sr = CInt n \<and> fs' = fs(p \<mapsto> \<lparr>samples = w, sample_rate = n\<rparr>)"
    if "save_audio host sp fs p w = Inr fs'" for p w fs'
    using that unfolding s
    by (cases sr) (auto simp: write_wav_def split: if_splits)
  have yes: "save_audio host sp fs path y = Inr (fs(path \<mapsto> \<lparr>samples = y, sample_rate = n\<rparr>))"
    if "sr = CInt n \<and> valid_audio host y \<and> writable host path \<and>
        0 \<le> n \<and> n < 2 ^ 32 \<and> n * int (frame_bytes host y) < 2 ^ 32 \<and> \<not> too_large host y"
    for n
    using that unfolding s by (simp add: write_wav_def)
  have run: "\<exists>audio magnitude phase features spectrogram separated_audio n.
               load_audio sp wav_path = Inr audio \<and>
               separated_stft sp audio = Inr (magnitude, phase) \<and>
               compute_features sp magnitude = Inr features \<and>
               source_spectrogram sp features magnitude class_idx = Inr spectrogram \<and>
               resynthesize sp spectrogram phase = Inr separated_audio \<and>
               sr = CInt n \<and>
               fs' = fs(out_path \<mapsto> \<lparr>samples = separated_audio, sample_rate = n\<rparr>)"
    if r: "run_notebook host sp wav_path out_path class_idx fs = Inr fs'" for fs'
  proof -
    from r obtain audio magnitude phase features spectrogram w where
      1: "load_audio sp wav_path = Inr audio"
      and 2: "separated_stft sp audio = Inr (magnitude, phase)"
      and 3: "compute_features sp magnitude = Inr features"
      and 4: "source_spectrogram sp features magnitude class_idx = Inr spectrogram"
      and 5: "resynthesize sp spectrogram phase = Inr w"
      and 6: "save_audio host sp fs out_path w = Inr fs'"
      by (auto simp: run_notebook_def split: sum.splits prod.splits)
    from ok [OF 6] obtain n where "sr = CInt n"
      and "fs' = fs(out_path \<mapsto> \<lparr>samples = w, sample_rate = n\<rparr>)" by blast
    with 1 2 3 4 5 show ?thesis by blast
  qed
  from ok yes run show ?thesis by blast
qed

text \<open>A run of the notebook on float buffers: the output file has the rate 16000.\<close>

theorem output_written_at_configured_rate_witness:
  "config (example_buffer_separator (example_config ''standard'') [1, 2, 2]) ''sampling_rate''
     = Some (CInt 16000) \<and>
   valid_audio (example_host all_finite) [Finite 0, Finite 4] \<and>
   writable (example_host all_finite) ''path_to_output.wav'' \<and>
   (0::int) \<le> 16000 \<and> (16000::int) < 2 ^ 32 \<and>
   16000 * int (frame_bytes (example_host all_finite) [Finite 0, Finite 4]) < 2 ^ 32 \<and>
   \<not> too_large (example_host all_finite) [Finite 0, Finite 4] \<and>
   save_audio (example_host all_finite)
      (example_buffer_separator (example_config ''standard'') [1, 2, 2]) Map.empty
      ''path_to_output.wav'' [Finite 0, Finite 4]
     = Inr [''path_to_output.wav'' \<mapsto> \<lparr>samples = [Finite 0, Finite 4], sample_rate = 16000\<rparr>] \<and>
   (case run_notebook (example_host all_finite)
           (example_buffer_separator (example_config ''standard'') [1, 2, 2])
           ''path_to_wav_to_separate.wav'' ''path_to_output.wav'' 0 Map.empty of
      Inl e \<Rightarrow> None
    | Inr fs' \<Rightarrow> fs' ''path_to_output.wav'')
     = Some \<lparr>samples = [Finite 0, Finite 4, Finite 12, Finite 24,
                         Finite 60, Finite 84, Finite 112, Finite 144],
             sample_rate = 16000\<rparr>"
proof -
  let ?sp = "example_buffer_separator (example_config ''standard'') [1, 2, 2]"
  let ?host = "example_host all_finite"
  let ?y = "[Finite 0, Finite 4]"
  have h: "config ?sp ''sampling_rate'' = Some (CInt 16000)"
    by (simp add: example_buffer_separator_def example_config_def)
  have c: "(CInt 16000 :: int config_value) = CInt 16000 \<and> valid_audio ?host ?y \<and> writable ?host ''path_to_output.wav'' \<and>
        (0::int) \<le> 16000 \<and> (16000::int) < 2 ^ 32 \<and>
        16000 * int (frame_bytes ?host ?y) < 2 ^ 32 \<and> \<not> too_large ?host ?y"
    by (simp add: example_host_def all_finite_def)
  have run: "(case run_notebook ?host ?sp ''path_to_wav_to_separate.wav'' ''path_to_output.wav'' 0
                  Map.empty of
      Inl e \<Rightarrow> None
    | Inr fs' \<Rightarrow> fs' ''path_to_output.wav'')
     = Some \<lparr>samples = [Finite 0, Finite 4, Finite 12, Finite 24,
                         Finite 60, Finite 84, Finite 112, Finite 144],
             sample_rate = 16000\<rparr>"
    by code_simp
  note t = output_written_at_configured_rate [OF h, of ?host Map.empty "''path_to_output.wav''" ?y]
  from t have "\<forall>n. (CInt 16000 :: int config_value) = CInt n \<and> valid_audio ?host ?y \<and>
        writable ?host ''path_to_output.wav'' \<and>
        0 \<le> n \<and> n < 2 ^ 32 \<and> n * int (frame_bytes ?host ?y) < 2 ^ 32 \<and> \<not> too_large ?host ?y \<longrightarrow>
      save_audio ?host ?sp Map.empty ''path_to_output.wav'' ?y
        = Inr [''path_to_output.wav'' \<mapsto> \<lparr>samples = ?y, sample_rate = n\<rparr>]"
    by (rule conjunct1 [OF conjunct2])
  from this [THEN spec, of 16000, THEN mp, OF c]
  have "save_audio ?host ?sp Map.empty ''path_to_output.wav'' ?y
     = Inr [''path_to_output.wav'' \<mapsto> \<lparr>samples = ?y, sample_rate = 16000\<rparr>]" .
  with h c run show ?thesis by simp
qed

end
